theory Spec2Isabelle
  imports Complex_Main
begin

section \<open>Scene objects of compas: a shallow embedding of \<open>compas/scene/sceneobject.py\<close>\<close>

text \<open>
  A \<open>SceneObject\<close> is a \<open>TreeNode\<close> that wraps a data item and carries presentation
  attributes. Python objects are referred to by reference: a reference is an index into
  a store (the list of all objects allocated so far), and a method that touches only the
  fields of \<open>self\<close> is a function on the record of \<open>self\<close>.

  The collaborators that the module imports but does not define (\<open>Color\<close>, \<open>Frame\<close>,
  \<open>Transformation\<close>, the drawing backend, the registry of scene object classes) are type
  variables and parameters: \<open>'c\<close> is a colour, \<open>'f\<close> a frame, \<open>'t\<close> a transformation.
  An attribute that holds \<open>None\<close> or an object is an \<open>option\<close>; objects of these
  classes are truthy, so a truth test on such an attribute is the test for \<open>Some\<close>.
\<close>

subsection \<open>Data\<close>

type_synonym ref = nat

datatype error =
    Exception string
  | TypeError string
  | AttributeError string
  | IndexError
  | NotImplementedError
  | SceneObjectNotRegisteredError string "string option"

text \<open>The data item: an opaque value with a name, an identity and a runtime type.\<close>

record data_item =
  item_name :: string
  item_guid :: string
  item_type :: string

text \<open>
  The fields of a scene object. \<open>name\<close>, \<open>parent\<close> and \<open>children\<close> are the ones of
  \<open>TreeNode\<close>; the fields written \<open>_x\<close> in the source are \<open>u_x\<close> here; \<open>context'\<close> and
  \<open>show'\<close> are the attributes \<open>context\<close> and \<open>show\<close>; \<open>cls\<close> is the class that
  \<open>__new__\<close> selected.
\<close>

record ('c, 'f, 't) sceneobject =
  cls :: string
  name :: string
  parent :: "ref option"
  children :: "ref list"
  context' :: "string option"
  u_item :: data_item
  u_guids :: "string list option"
  u_node :: "ref option"
  u_frame :: "'f option"
  u_transformation :: "'t option"
  u_contrastcolor :: "'c option"
  u_color :: "'c option"
  opacity :: real
  show' :: bool

text \<open>
  The keyword arguments of the constructor. A key that is absent is \<open>None\<close>; for
  \<open>context\<close> the source distinguishes an absent key from a key bound to \<open>None\<close>, so
  that field is an option of the value.
\<close>

record ('c, 'f, 't) kwargs =
  kw_name :: "string option"
  kw_color :: "'c option"
  kw_opacity :: "real option"
  kw_show :: "bool option"
  kw_frame :: "'f option"
  kw_transformation :: "'t option"
  kw_context :: "string option option"

text \<open>The operations of \<open>Color\<close> that the module calls.\<close>

record ('v, 'c) color_ops =
  is_light :: "'c \<Rightarrow> bool"
  darkened :: "'c \<Rightarrow> int \<Rightarrow> 'c"
  lightened :: "'c \<Rightarrow> int \<Rightarrow> 'c"
  coerce :: "'v \<Rightarrow> 'c option"

subsection \<open>Attributes of one object\<close>

text \<open>\<open>guids\<close>: \<open>return self._guids or []\<close>. An empty list is falsy as well.\<close>

definition guids :: "('c, 'f, 't) sceneobject \<Rightarrow> string list" where
  "guids self = (case u_guids self of
                   None \<Rightarrow> []
                 | Some gs \<Rightarrow> if gs = [] then [] else gs)"

definition frame :: "('c, 'f, 't) sceneobject \<Rightarrow> 'f option" where
  "frame self = u_frame self"

definition transformation :: "('c, 'f, 't) sceneobject \<Rightarrow> 't option" where
  "transformation self = u_transformation self"

text \<open>
  Modelled from the spec: the descriptor \<open>ColorAttribute\<close> behind the attribute \<open>color\<close>
  is defined in another module. "Getting with no explicit value returns the class
  default"; the class default is the parameter \<open>dflt\<close>.
\<close>

definition color :: "'c option \<Rightarrow> ('c, 'f, 't) sceneobject \<Rightarrow> 'c option" where
  "color dflt self = (case u_color self of Some c \<Rightarrow> Some c | None \<Rightarrow> dflt)"

text \<open>
  Modelled from the spec: the setter of \<open>ColorAttribute\<close>, which is defined in another
  module. "Setting clears any cached contrastColor."
\<close>

definition color_set ::
  "'c option \<Rightarrow> ('c, 'f, 't) sceneobject \<Rightarrow> ('c, 'f, 't) sceneobject" where
  "color_set v self = self\<lparr>u_color := v, u_contrastcolor := None\<rparr>"

text \<open>
  \<open>contrastcolor\<close>, the getter: it fills the cache when the cache is unset, and returns
  the cache. Reading \<open>is_light\<close> of a colour that is \<open>None\<close> raises.
\<close>

definition contrastcolor ::
  "('v, 'c) color_ops \<Rightarrow> 'c option \<Rightarrow> ('c, 'f, 't) sceneobject
     \<Rightarrow> error + ('c \<times> ('c, 'f, 't) sceneobject)" where
  "contrastcolor K dflt self =
     (case u_contrastcolor self of
        Some cc \<Rightarrow> Inr (cc, self)
      | None \<Rightarrow>
          (case color dflt self of
             None \<Rightarrow> Inl (AttributeError ''is_light'')
           | Some c \<Rightarrow>
               (let cc = (if is_light K c then darkened K c 50 else lightened K c 50)
                in Inr (cc, self\<lparr>u_contrastcolor := Some cc\<rparr>))))"

text \<open>\<open>contrastcolor\<close>, the setter: \<open>self._contrastcolor = Color.coerce(color)\<close>.\<close>

definition contrastcolor_set ::
  "('v, 'c) color_ops \<Rightarrow> 'v \<Rightarrow> ('c, 'f, 't) sceneobject \<Rightarrow> ('c, 'f, 't) sceneobject" where
  "contrastcolor_set K v self = self\<lparr>u_contrastcolor := coerce K v\<rparr>"

subsection \<open>Construction\<close>

text \<open>
  \<open>__init__\<close>: \<open>name or item.name\<close> takes the item's name for a name that is \<open>None\<close> or
  empty; \<open>TreeNode.__init__\<close> leaves the node without parent and children; the last
  assignments are \<open>self.color = color or self.color\<close>, \<open>opacity\<close> and \<open>show\<close>.
\<close>

definition init ::
  "'c option \<Rightarrow> string \<Rightarrow> data_item \<Rightarrow> ('c, 'f, 't) kwargs \<Rightarrow> ('c, 'f, 't) sceneobject" where
  "init dflt c it kw =
     (let nm = (case kw_name kw of
                  None \<Rightarrow> item_name it
                | Some n \<Rightarrow> if n = [] then item_name it else n);
          self = \<lparr>cls = c, name = nm, parent = None, children = [],
                  context' = (case kw_context kw of None \<Rightarrow> None | Some x \<Rightarrow> x),
                  u_item = it, u_guids = None, u_node = None,
                  u_frame = kw_frame kw, u_transformation = kw_transformation kw,
                  u_contrastcolor = None, u_color = None,
                  opacity = (case kw_opacity kw of None \<Rightarrow> 1 | Some x \<Rightarrow> x),
                  show' = (case kw_show kw of None \<Rightarrow> True | Some b \<Rightarrow> b)\<rparr>
      in color_set (case kw_color kw of Some k \<Rightarrow> Some k | None \<Rightarrow> color dflt self) self)"

text \<open>
  Modelled from the spec: \<open>get_sceneobject_cls\<close> of \<open>compas.scene.context\<close> is defined in
  another module. The registry maps an item type and a context to the class that
  draws it; "if no variant is registered for (type(item), context), fail with an
  unregistered-scene-object error naming both the item type and context".
\<close>

definition get_sceneobject_cls ::
  "(string \<Rightarrow> string option \<Rightarrow> string option) \<Rightarrow> data_item \<Rightarrow> ('c, 'f, 't) kwargs
     \<Rightarrow> error + string" where
  "get_sceneobject_cls registry it kw =
     (let cx = (case kw_context kw of None \<Rightarrow> None | Some x \<Rightarrow> x)
      in case registry (item_type it) cx of
           None \<Rightarrow> Inl (SceneObjectNotRegisteredError (item_type it) cx)
         | Some c \<Rightarrow> Inr c)"

text \<open>\<open>SceneObject(item, **kwargs)\<close>: \<open>__new__\<close> selects the class, \<open>__init__\<close> fills it.\<close>

definition new_sceneobject ::
  "(string \<Rightarrow> string option \<Rightarrow> string option) \<Rightarrow> 'c option \<Rightarrow> data_item
     \<Rightarrow> ('c, 'f, 't) kwargs \<Rightarrow> error + ('c, 'f, 't) sceneobject" where
  "new_sceneobject registry dflt it kw =
     (case get_sceneobject_cls registry it kw of
        Inl e \<Rightarrow> Inl e
      | Inr c \<Rightarrow> Inr (init dflt c it kw))"

subsection \<open>Drawing and clearing\<close>

text \<open>\<open>draw\<close> of the base class is abstract.\<close>

definition draw :: "('c, 'f, 't) sceneobject \<Rightarrow> error + ('c, 'f, 't) sceneobject" where
  "draw self = Inl NotImplementedError"

text \<open>
  Modelled from the spec: the concrete variants are defined in other modules.
  "Implementations are expected to call into the external drawing backend and store
  returned handles into guids"; \<open>backend_draw\<close> is the backend's answer for the object.
\<close>

definition draw_variant ::
  "(('c, 'f, 't) sceneobject \<Rightarrow> string list) \<Rightarrow> ('c, 'f, 't) sceneobject
     \<Rightarrow> ('c, 'f, 't) sceneobject" where
  "draw_variant backend_draw self = self\<lparr>u_guids := Some (backend_draw self)\<rparr>"

text \<open>
  \<open>clear\<close>: \<open>clear(guids=self.guids)\<close> hands the current handles to the backend (the
  parameter \<open>backend_clear\<close>, acting on the backend's state \<open>'b\<close>), then
  \<open>self._guids = None\<close>.
\<close>

definition clear ::
  "(string list \<Rightarrow> 'b \<Rightarrow> 'b) \<Rightarrow> ('c, 'f, 't) sceneobject \<Rightarrow> 'b
     \<Rightarrow> ('c, 'f, 't) sceneobject \<times> 'b" where
  "clear backend_clear self b = (self\<lparr>u_guids := None\<rparr>, backend_clear (guids self) b)"

subsection \<open>Serialisation\<close>

text \<open>
  \<open>__from_data__\<close> is a class method: it raises whatever the class and the data are.
\<close>

definition from_data :: "string \<Rightarrow> 'd \<Rightarrow> error + ('c, 'f, 't) sceneobject" where
  "from_data c d = Inl (TypeError ''Serialisation outside Scene not allowed.'')"

text \<open>
  \<open>settings\<close>: a dictionary with the keys \<open>name\<close>, \<open>color\<close>, \<open>opacity\<close> and \<open>show\<close>, and
  with the keys \<open>frame\<close> and \<open>transformation\<close> when these are set; an optional key is an
  option here.
\<close>

record ('c, 'f, 't) settings_dict =
  s_name :: string
  s_color :: "'c option"
  s_opacity :: real
  s_show :: bool
  s_frame :: "'f option"
  s_transformation :: "'t option"

definition settings ::
  "'c option \<Rightarrow> ('c, 'f, 't) sceneobject \<Rightarrow> ('c, 'f, 't) settings_dict" where
  "settings dflt self =
     \<lparr>s_name = name self, s_color = color dflt self, s_opacity = opacity self,
      s_show = show' self, s_frame = frame self, s_transformation = transformation self\<rparr>"

text \<open>
  The dictionary that \<open>__data__\<close> returns: the item's guid as a string, the settings,
  and the dictionaries of the children.
\<close>

datatype ('c, 'f, 't) data_dict =
  Data string "('c, 'f, 't) settings_dict" "('c, 'f, 't) data_dict list"

subsection \<open>The tree\<close>

text \<open>The store holds every object allocated so far; a reference is its index.\<close>

type_synonym ('c, 'f, 't) store = "('c, 'f, 't) sceneobject list"

text \<open>
  Modelled from the spec: \<open>TreeNode\<close> is defined in another module. It supports
  "identification of root nodes": the root is the node without a parent.
\<close>

definition is_root :: "('c, 'f, 't) sceneobject \<Rightarrow> bool" where
  "is_root node = (parent node = None)"

text \<open>
  Modelled from the spec: \<open>TreeNode.add\<close> "mutates the tree structure by appending the
  child under self"; the child's parent becomes \<open>self\<close>.
\<close>

definition treenode_add ::
  "ref \<Rightarrow> ref \<Rightarrow> ('c, 'f, 't) store \<Rightarrow> ('c, 'f, 't) store" where
  "treenode_add self node h =
     (let h1 = h[self := (h ! self)\<lparr>children := children (h ! self) @ [node]\<rparr>]
      in h1[node := (h1 ! node)\<lparr>parent := Some self\<rparr>])"

text \<open>
  What \<open>add\<close> may receive as \<open>item\<close>: a data item, or an object that is a
  \<open>SceneObject\<close> already.
\<close>

datatype added = Item data_item | Object ref

fun valid_added :: "('c, 'f, 't) store \<Rightarrow> added \<Rightarrow> bool" where
  "valid_added h (Item d) = True"
| "valid_added h (Object r) = (r < length h)"

text \<open>\<open>"{}".format(x)\<close> of a context: a string, or \<open>None\<close>.\<close>

fun format_context :: "string option \<Rightarrow> string" where
  "format_context None = ''None''"
| "format_context (Some s) = s"

definition mismatch_message :: "string option \<Rightarrow> string option \<Rightarrow> string" where
  "mismatch_message child_context parent_context =
     ''Child context should be the same as parent context: ''
       @ format_context child_context @ '' != '' @ format_context parent_context"

text \<open>
  \<open>add\<close>. The store comes back in every case, so that an error shows what the call
  has changed before it raised. A new object is allocated at the end of the store.
\<close>

definition add ::
  "(string \<Rightarrow> string option \<Rightarrow> string option) \<Rightarrow> 'c option \<Rightarrow> ref \<Rightarrow> added
     \<Rightarrow> ('c, 'f, 't) kwargs \<Rightarrow> ('c, 'f, 't) store \<Rightarrow> (error + ref) \<times> ('c, 'f, 't) store" where
  "add registry dflt self item kw h =
     (case item of
        Object r \<Rightarrow> (Inr r, treenode_add self r h)
      | Item d \<Rightarrow>
          (if (case kw_context kw of
                 None \<Rightarrow> False
               | Some kc \<Rightarrow> kc \<noteq> context' (h ! self))
           then (Inl (Exception (mismatch_message (the (kw_context kw)) (context' (h ! self)))), h)
           else
             (case new_sceneobject registry dflt d (kw\<lparr>kw_context := Some (context' (h ! self))\<rparr>) of
                Inl e \<Rightarrow> (Inl e, h)
              | Inr ob \<Rightarrow> (Inr (length h), treenode_add self (length h) (h @ [ob])))))"

text \<open>A method of one object, called on a reference.\<close>

definition on_ref ::
  "ref \<Rightarrow> (('c, 'f, 't) sceneobject \<Rightarrow> 'b \<Rightarrow> ('c, 'f, 't) sceneobject \<times> 'b)
     \<Rightarrow> ('c, 'f, 't) store \<Rightarrow> 'b \<Rightarrow> ('c, 'f, 't) store \<times> 'b" where
  "on_ref self m h b = (case m (h ! self) b of (self', b') \<Rightarrow> (h[self := self'], b'))"

text \<open>
  \<open>__data__\<close>: it descends into the children, and has no \<open>raise\<close>. The recursion
  need not end on a store whose child references form a cycle, so it carries fuel (the
  depth to which it may descend), and \<open>None\<close> says that the fuel ran out.
\<close>

fun data ::
  "nat \<Rightarrow> 'c option \<Rightarrow> ('c, 'f, 't) store \<Rightarrow> ref \<Rightarrow> ('c, 'f, 't) data_dict option" where
  "data 0 dflt h self = None"
| "data (Suc fuel) dflt h self =
     (case those (map (data fuel dflt h) (children (h ! self))) of
        None \<Rightarrow> None
      | Some cs \<Rightarrow> Some (Data (item_guid (u_item (h ! self))) (settings dflt (h ! self)) cs))"

text \<open>The objects below \<open>self\<close> form a tree of fewer than \<open>n\<close> levels under it.\<close>

fun subtree_within :: "nat \<Rightarrow> ('c, 'f, 't) store \<Rightarrow> ref \<Rightarrow> bool" where
  "subtree_within 0 h self = False"
| "subtree_within (Suc n) h self = list_all (subtree_within n h) (children (h ! self))"

subsection \<open>The world transformation\<close>

text \<open>
  The operations of \<open>Transformation\<close> that the module calls. Modelled from the spec:
  \<open>Transformation()\<close> with no argument is "an identity transformation".
\<close>

record ('f, 't) transformation_ops =
  from_frame :: "'f \<Rightarrow> 't"
  mul :: "'t \<Rightarrow> 't \<Rightarrow> 't"
  identity :: "'t"

text \<open>
  The loop \<open>while parent and not parent.is_root\<close>, with the stack of frames as its
  accumulator. The loop need not end on a store whose parent references form a cycle:
  the result is \<open>None\<close> then.
\<close>

partial_function (option) collect_frames ::
  "('c, 'f, 't) store \<Rightarrow> ref option \<Rightarrow> 'f list \<Rightarrow> 'f list option" where
  "collect_frames h p frame_stack =
     (case p of
        None \<Rightarrow> Some frame_stack
      | Some r \<Rightarrow>
          if is_root (h ! r) then Some frame_stack
          else collect_frames h (parent (h ! r))
                 (case frame (h ! r) of
                    Some f \<Rightarrow> frame_stack @ [f]
                  | None \<Rightarrow> frame_stack))"

declare collect_frames.simps [code]

text \<open>
  \<open>worldtransformation\<close>: \<open>reduce(mul, matrices[::-1])\<close> folds from the left over the
  reversed list, and is taken only when the list is not empty.
\<close>

definition worldtransformation ::
  "('f, 't) transformation_ops \<Rightarrow> ('c, 'f, 't) store \<Rightarrow> ref \<Rightarrow> 't option" where
  "worldtransformation G h self =
     (case collect_frames h (parent (h ! self)) [] of
        None \<Rightarrow> None
      | Some frame_stack \<Rightarrow>
          (let matrices = map (from_frame G) frame_stack;
               wt = (case rev matrices of
                       [] \<Rightarrow> identity G
                     | m # ms \<Rightarrow> foldl (mul G) m ms)
           in Some (case transformation (h ! self) of
                      Some T \<Rightarrow> mul G wt T
                    | None \<Rightarrow> wt)))"

text \<open>
  The chain of parent references from \<open>p\<close> up to the node without a parent: the
  ancestors, nearest first. A store built by adding children to a tree has such a chain
  for every object.
\<close>

fun ancestors :: "('c, 'f, 't) store \<Rightarrow> ref option \<Rightarrow> ref list \<Rightarrow> bool" where
  "ancestors h p [] = (p = None)"
| "ancestors h p (r # rs) = (p = Some r \<and> r < length h \<and> ancestors h (parent (h ! r)) rs)"

text \<open>The frames that are set, of the objects of a list, in the order of the list.\<close>

definition frames_of :: "('c, 'f, 't) store \<Rightarrow> ref list \<Rightarrow> 'f list" where
  "frames_of h rs = List.map_filter (\<lambda>r. frame (h ! r)) rs"

subsection \<open>The polyhedron of the geometry test\<close>

text \<open>
  Modelled from the spec: the class \<open>Polyhedron\<close> is defined in another module,
  only its test is. The geometry types are "simple value containers (vertices/faces
  lists with derived point/line accessors)": \<open>points\<close> is the list of vertices, and
  \<open>lines\<close> is, for every face, "the consecutive pairs of the vertex ring including the
  closing edge" back to the first vertex of the ring.
\<close>

record polyhedron =
  vertices :: "int list list"
  faces :: "nat list list"
  p_name :: string

text \<open>\<open>pairwise\<close> of \<open>compas.itertools\<close>: the pairs of neighbours of a list.\<close>

fun pairwise' :: "'a list \<Rightarrow> ('a \<times> 'a) list" where
  "pairwise' (x # y # zs) = (x, y) # pairwise' (y # zs)"
| "pairwise' zs = []"

definition Polyhedron :: "int list list \<Rightarrow> nat list list \<Rightarrow> string \<Rightarrow> polyhedron" where
  "Polyhedron vs fs n = \<lparr>vertices = vs, faces = fs, p_name = n\<rparr>"

definition points :: "polyhedron \<Rightarrow> int list list" where
  "points p = vertices p"

definition edges :: "polyhedron \<Rightarrow> (nat \<times> nat) list" where
  "edges p = concat (map (\<lambda>face. pairwise' (face @ take 1 face)) (faces p))"

definition lines :: "polyhedron \<Rightarrow> error + (int list \<times> int list) list" where
  "lines p =
     (if list_all (\<lambda>(u, v). u < length (vertices p) \<and> v < length (vertices p)) (edges p)
      then Inr (map (\<lambda>(u, v). (vertices p ! u, vertices p ! v)) (edges p))
      else Inl IndexError)"

subsection \<open>Example values\<close>

text \<open>
  A small colour model (a grey level between 0 and 100), transformations as words
  under concatenation (which does not commute, so the order of a product shows), a
  registry that knows every item type, and a data item.
\<close>

definition grey :: "(int, int) color_ops" where
  "grey = \<lparr>is_light = (\<lambda>c. 50 < c),
           darkened = (\<lambda>c p. c * (100 - p) div 100),
           lightened = (\<lambda>c p. c + (100 - c) * p div 100),
           coerce = Some\<rparr>"

definition words :: "(string, string) transformation_ops" where
  "words = \<lparr>from_frame = (\<lambda>f. f), mul = (\<lambda>a b. a @ b), identity = []\<rparr>"

definition any_registry :: "string \<Rightarrow> string option \<Rightarrow> string option" where
  "any_registry ty cx = Some (ty @ ''Object'')"

definition box :: data_item where
  "box = \<lparr>item_name = ''Box'', item_guid = ''guid-0'', item_type = ''Box''\<rparr>"

definition no_kwargs :: "(int, string, string) kwargs" where
  "no_kwargs = \<lparr>kw_name = None, kw_color = None, kw_opacity = None, kw_show = None,
                 kw_frame = None, kw_transformation = None, kw_context = None\<rparr>"

text \<open>A light object, and the same object after \<open>obj.contrastcolor = 10\<close>.\<close>

definition light_object :: "(int, string, string) sceneobject" where
  "light_object = init None ''BoxObject'' box (no_kwargs\<lparr>kw_color := Some 80\<rparr>)"

definition overridden_object :: "(int, string, string) sceneobject" where
  "overridden_object = contrastcolor_set grey 10 light_object"

text \<open>Two objects made apart from each other, in the contexts \<open>A\<close> and \<open>B\<close>.\<close>

definition two_contexts :: "(int, string, string) store" where
  "two_contexts =
     [init None ''BoxObject'' box (no_kwargs\<lparr>kw_context := Some (Some ''A'')\<rparr>),
      init None ''BoxObject'' box (no_kwargs\<lparr>kw_context := Some (Some ''B'')\<rparr>)]"

text \<open>
  A chain of five objects, each added under the one before: the root 0 with frame
  \<open>R\<close>, 1 with frame \<open>A\<close>, 2 without a frame, 3 with frame \<open>C\<close>, and 4 with the
  transformation \<open>T\<close>.
\<close>

definition chain0 :: "(int, string, string) store" where
  "chain0 = [init None ''BoxObject'' box (no_kwargs\<lparr>kw_frame := Some ''R''\<rparr>)]"

definition chain1 :: "(int, string, string) store" where
  "chain1 = snd (add any_registry None 0 (Item box) (no_kwargs\<lparr>kw_frame := Some ''A''\<rparr>) chain0)"

definition chain2 :: "(int, string, string) store" where
  "chain2 = snd (add any_registry None 1 (Item box) no_kwargs chain1)"

definition chain3 :: "(int, string, string) store" where
  "chain3 = snd (add any_registry None 2 (Item box) (no_kwargs\<lparr>kw_frame := Some ''C''\<rparr>) chain2)"

definition chain :: "(int, string, string) store" where
  "chain = snd (add any_registry None 3 (Item box)
                  (no_kwargs\<lparr>kw_transformation := Some ''T''\<rparr>) chain3)"

text \<open>The record of an object of the chain, by the fields in which they differ.\<close>

definition chain_node ::
  "ref option \<Rightarrow> ref list \<Rightarrow> string option \<Rightarrow> string option
     \<Rightarrow> (int, string, string) sceneobject" where
  "chain_node p cs f t =
     \<lparr>cls = ''BoxObject'', name = ''Box'', parent = p, children = cs, context' = None,
      u_item = box, u_guids = None, u_node = None, u_frame = f, u_transformation = t,
      u_contrastcolor = None, u_color = None, opacity = 1, show' = True\<rparr>"

section \<open>Properties\<close>

subsection \<open>Auxiliary facts\<close>

lemmas example_defs =
  add_def new_sceneobject_def get_sceneobject_cls_def any_registry_def init_def
  color_set_def color_def treenode_add_def no_kwargs_def box_def mismatch_message_def

lemma guids_init: "guids (init dflt c it kw) = []"
  by (simp add: guids_def init_def color_set_def Let_def)

lemma init_context:
  "context' (init dflt c it kw) = (case kw_context kw of None \<Rightarrow> None | Some x \<Rightarrow> x)"
  by (simp add: init_def color_set_def Let_def)

lemma treenode_add_length: "length (treenode_add self node h) = length h"
  by (simp add: treenode_add_def Let_def)

lemma treenode_add_child:
  "self < length h \<Longrightarrow> node < length h \<Longrightarrow>
     children (treenode_add self node h ! self) = children (h ! self) @ [node]
   \<and> parent (treenode_add self node h ! node) = Some self
   \<and> context' (treenode_add self node h ! self) = context' (h ! self)
   \<and> context' (treenode_add self node h ! node) = context' (h ! node)"
  by (cases "self = node") (simp_all add: treenode_add_def Let_def)

text \<open>What a successful \<open>add\<close> of a data item has done.\<close>

lemma add_Item_cases:
  "add registry dflt self (Item d) kw h = (Inr c, h') \<Longrightarrow>
     (case kw_context kw of None \<Rightarrow> True | Some x \<Rightarrow> x = context' (h ! self))
     \<and> (\<exists>ob. new_sceneobject registry dflt d (kw\<lparr>kw_context := Some (context' (h ! self))\<rparr>) = Inr ob
        \<and> c = length h \<and> h' = treenode_add self (length h) (h @ [ob]))"
  by (auto simp: add_def split: if_splits sum.splits option.splits)

lemma add_Item_result:
  assumes "self < length h"
    and "add registry dflt self (Item d) kw h = (Inr c, h')"
  shows "c = length h \<and> length h' = Suc (length h)
     \<and> context' (h' ! c) = context' (h ! self)
     \<and> context' (h' ! self) = context' (h ! self)
     \<and> children (h' ! self) = children (h ! self) @ [c]
     \<and> parent (h' ! c) = Some self"
proof -
  from assms(2) obtain ob where
    ob: "new_sceneobject registry dflt d (kw\<lparr>kw_context := Some (context' (h ! self))\<rparr>) = Inr ob"
    and c: "c = length h" and h': "h' = treenode_add self (length h) (h @ [ob])"
    using add_Item_cases by blast
  from ob have "context' ob = context' (h ! self)"
    by (auto simp: new_sceneobject_def init_context split: sum.splits)
  moreover have "self < length (h @ [ob])" "length h < length (h @ [ob])"
    using assms(1) by simp_all
  ultimately show ?thesis
    using treenode_add_child [of self "h @ [ob]" "length h"] assms(1)
    by (simp add: c h' nth_append treenode_add_length)
qed

text \<open>What a successful \<open>add\<close> has done, whatever was added.\<close>

lemma add_attaches:
  assumes "self < length h" and "valid_added h item"
    and "add registry dflt self item kw h = (Inr c, h')"
  shows "self < length h' \<and> c < length h'
     \<and> children (h' ! self) = children (h ! self) @ [c]
     \<and> parent (h' ! c) = Some self"
proof (cases item)
  case (Item d)
  with add_Item_result [of self h registry dflt d kw c h'] assms show ?thesis by auto
next
  case (Object r)
  with assms have "c = r" "h' = treenode_add self r h" "r < length h"
    by (auto simp: add_def)
  with treenode_add_child [of self h r] assms(1) show ?thesis
    by (simp add: treenode_add_length)
qed

lemma frames_of_Nil: "frames_of h [] = []"
  by (simp add: frames_of_def map_filter_simps)

lemma frames_of_Cons:
  "frames_of h (r # rs)
     = (case frame (h ! r) of None \<Rightarrow> frames_of h rs | Some f \<Rightarrow> f # frames_of h rs)"
  by (cases "frame (h ! r)") (simp_all add: frames_of_def map_filter_simps)

text \<open>
  The loop ends on every chain of ancestors, with the frames of the ancestors below
  the first root, nearest first, behind what the stack held.
\<close>

lemma collect_frames_ancestors:
  "ancestors h p rs \<Longrightarrow>
     collect_frames h p acc
       = Some (acc @ frames_of h (takeWhile (\<lambda>r. \<not> is_root (h ! r)) rs))"
proof (induction rs arbitrary: p acc)
  case Nil
  then show ?case
    by (subst collect_frames.simps) (simp add: frames_of_Nil)
next
  case (Cons r rs)
  from Cons.prems have p: "p = Some r" and rest: "ancestors h (parent (h ! r)) rs"
    by simp_all
  show ?case
  proof (cases "is_root (h ! r)")
    case True
    then show ?thesis
      by (subst collect_frames.simps) (simp add: p frames_of_Nil)
  next
    case False
    have "collect_frames h p acc
            = collect_frames h (parent (h ! r))
                (case frame (h ! r) of Some f \<Rightarrow> acc @ [f] | None \<Rightarrow> acc)"
      using False by (subst collect_frames.simps) (simp add: p)
    also have "\<dots> = Some ((case frame (h ! r) of Some f \<Rightarrow> acc @ [f] | None \<Rightarrow> acc)
                          @ frames_of h (takeWhile (\<lambda>r. \<not> is_root (h ! r)) rs))"
      by (rule Cons.IH [OF rest])
    finally show ?thesis
      using False by (simp add: frames_of_Cons split: option.splits)
  qed
qed

text \<open>On a chain of ancestors the first root is the last node of the chain.\<close>

lemma ancestors_below_root:
  "ancestors h p rs \<Longrightarrow> takeWhile (\<lambda>r. \<not> is_root (h ! r)) rs = butlast rs"
proof (induction rs arbitrary: p)
  case Nil
  then show ?case by simp
next
  case (Cons r rs)
  then have rest: "ancestors h (parent (h ! r)) rs" by simp
  show ?case
  proof (cases rs)
    case Nil
    with rest show ?thesis by (simp add: is_root_def)
  next
    case inner: (Cons q qs)
    with rest have "parent (h ! r) = Some q" by simp
    with inner Cons.IH [OF rest] show ?thesis by (simp add: is_root_def)
  qed
qed

text \<open>The chain, evaluated one \<open>add\<close> at a time.\<close>

lemma chain0_eq: "chain0 = [chain_node None [] (Some ''R'') None]"
  by (simp add: chain0_def chain_node_def example_defs Let_def)

lemma chain1_eq: "chain1 = [chain_node None [1] (Some ''R'') None, chain_node (Some 0) [] (Some ''A'') None]"
  by (simp add: chain1_def chain0_eq chain_node_def example_defs Let_def)

lemma chain2_eq:
  "chain2 = [chain_node None [1] (Some ''R'') None, chain_node (Some 0) [2] (Some ''A'') None,
             chain_node (Some 1) [] None None]"
  by (simp add: chain2_def chain1_eq chain_node_def example_defs Let_def)

lemma chain3_eq:
  "chain3 = [chain_node None [1] (Some ''R'') None, chain_node (Some 0) [2] (Some ''A'') None,
             chain_node (Some 1) [3] None None, chain_node (Some 2) [] (Some ''C'') None]"
  by (simp add: chain3_def chain2_eq chain_node_def example_defs Let_def)

lemma chain_eq:
  "chain = [chain_node None [1] (Some ''R'') None, chain_node (Some 0) [2] (Some ''A'') None,
            chain_node (Some 1) [3] None None, chain_node (Some 2) [4] (Some ''C'') None,
            chain_node (Some 3) [] None (Some ''T'')]"
  by (simp add: chain_def chain3_eq chain_node_def example_defs Let_def)

text \<open>Where the contrast colour is not set, the getter computes it from the colour.\<close>

lemma contrastcolor_unset_cache:
  assumes "u_contrastcolor self = None" and "color dflt self = Some c"
  shows "(is_light K c \<longrightarrow> map_sum id fst (contrastcolor K dflt self) = Inr (darkened K c 50))
       \<and> (\<not> is_light K c \<longrightarrow> map_sum id fst (contrastcolor K dflt self) = Inr (lightened K c 50))
       \<and> (let cc = (if is_light K c then darkened K c 50 else lightened K c 50);
               self' = self\<lparr>u_contrastcolor := Some cc\<rparr>
           in contrastcolor K dflt self = Inr (cc, self')
              \<and> contrastcolor K dflt self' = Inr (cc, self'))"
  using assms by (simp add: contrastcolor_def Let_def)

text \<open>After the setter, the getter returns what \<open>Color.coerce\<close> made of the value.\<close>

lemma contrastcolor_after_set:
  "coerce K v = Some cc \<Longrightarrow>
     contrastcolor K dflt (contrastcolor_set K v self) = Inr (cc, contrastcolor_set K v self)"
  by (simp add: contrastcolor_def contrastcolor_set_def)

text \<open>\<open>__data__\<close> returns on every tree, with fuel for its levels.\<close>

lemma those_map_Some:
  "(\<And>x. x \<in> set xs \<Longrightarrow> \<exists>y. f x = Some y) \<Longrightarrow>
     \<exists>ys. those (map f xs) = Some ys \<and> length ys = length xs"
proof (induction xs)
  case Nil
  then show ?case by simp
next
  case (Cons x xs)
  from Cons.prems obtain y where y: "f x = Some y" by force
  from Cons.IH Cons.prems obtain ys where "those (map f xs) = Some ys" "length ys = length xs"
    by force
  with y show ?case by simp
qed

lemma data_returns:
  "subtree_within n h self \<Longrightarrow>
     \<exists>cs. data n dflt h self
            = Some (Data (item_guid (u_item (h ! self))) (settings dflt (h ! self)) cs)
        \<and> length cs = length (children (h ! self))"
proof (induction n arbitrary: self)
  case 0
  then show ?case by simp
next
  case (Suc n)
  have "\<exists>y. data n dflt h c = Some y" if "c \<in> set (children (h ! self))" for c
  proof -
    from Suc.prems that have "subtree_within n h c"
      by (simp add: list_all_iff)
    from Suc.IH [OF this] show ?thesis by blast
  qed
  from those_map_Some [of "children (h ! self)" "data n dflt h", OF this]
  obtain cs where "those (map (data n dflt h) (children (h ! self))) = Some cs"
    and "length cs = length (children (h ! self))"
    by blast
  then show ?case by simp
qed

text \<open>The polyhedron: pairs of neighbours under a map, and the edges of one face.\<close>

lemma pairwise'_map: "pairwise' (map g xs) = map (\<lambda>(a, b). (g a, g b)) (pairwise' xs)"
  by (induction xs rule: pairwise'.induct) simp_all

lemma set_pairwise':
  "(a, b) \<in> set (pairwise' xs) \<Longrightarrow> a \<in> set xs \<and> b \<in> set xs"
  by (induction xs rule: pairwise'.induct) auto

lemma lines_one_face:
  assumes "list_all (\<lambda>i. i < length vs) face"
  shows "lines (Polyhedron vs [face] n)
           = Inr (pairwise' (map (\<lambda>i. vs ! i) face @ take 1 (map (\<lambda>i. vs ! i) face)))"
proof -
  have e: "edges (Polyhedron vs [face] n) = pairwise' (face @ take 1 face)"
    by (simp add: edges_def Polyhedron_def)
  have "u < length vs \<and> v < length vs" if "(u, v) \<in> set (pairwise' (face @ take 1 face))" for u v
  proof -
    from set_pairwise' [OF that] have "u \<in> set face" "v \<in> set face"
      by (auto dest: in_set_takeD)
    with assms show ?thesis by (simp add: list_all_iff)
  qed
  then have ok: "list_all (\<lambda>(u, v). u < length vs \<and> v < length vs) (pairwise' (face @ take 1 face))"
    by (auto simp: list_all_iff)
  have "map (\<lambda>(u, v). (vs ! u, vs ! v)) (pairwise' (face @ take 1 face))
          = pairwise' (map (\<lambda>i. vs ! i) (face @ take 1 face))"
    by (simp only: pairwise'_map)
  also have "\<dots> = pairwise' (map (\<lambda>i. vs ! i) face @ take 1 (map (\<lambda>i. vs ! i) face))"
    by (simp add: take_map)
  finally show ?thesis
    using ok by (simp add: lines_def e [unfolded Polyhedron_def] Polyhedron_def)
qed

subsection \<open>The claims\<close>

text \<open>
  C1. Reading \<open>worldtransformation\<close> of an object whose parent references lead up to a
  root returns a value: with \<open>rs\<close> the ancestors, nearest first, the frames collected
  are those that are set among the ancestors below the root (\<open>butlast rs\<close>), each is
  converted with \<open>from_frame\<close>, the product is taken over the reversed list from the
  left (the outermost frame first), and the object's own transformation, if set, is
  multiplied on from the right. With no collected frame and no own transformation the
  result is the identity.
\<close>

theorem worldtransformation_composition:
  assumes "ancestors h (parent (h ! self)) rs"
  shows "worldtransformation G h self
           = Some (let frame_stack = frames_of h (butlast rs);
                       wt = (case rev (map (from_frame G) frame_stack) of
                               [] \<Rightarrow> identity G
                             | m # ms \<Rightarrow> foldl (mul G) m ms)
                   in case transformation (h ! self) of
                        Some T \<Rightarrow> mul G wt T
                      | None \<Rightarrow> wt)
       \<and> (frames_of h (butlast rs) = [] \<and> transformation (h ! self) = None
            \<longrightarrow> worldtransformation G h self = Some (identity G))"
  using collect_frames_ancestors [OF assms, of "[]"] ancestors_below_root [OF assms]
  by (simp add: worldtransformation_def Let_def)

text \<open>
  On the chain: object 4 collects \<open>C\<close> and then \<open>A\<close> (object 2 has no frame, the root's
  frame \<open>R\<close> is left out), and its world transformation is \<open>A * C * T\<close>; object 1 is a
  child of the root and has the identity.
\<close>

theorem worldtransformation_composition_witness:
  "ancestors chain (parent (chain ! 4)) [3, 2, 1, 0]
   \<and> frames_of chain (butlast [3, 2, 1, 0]) = [''C'', ''A'']
   \<and> worldtransformation words chain 4 = Some ''ACT''
   \<and> ancestors chain (parent (chain ! 1)) [0]
   \<and> worldtransformation words chain 1 = Some (identity words)"
  using worldtransformation_composition [of chain 4 "[3, 2, 1, 0]" words]
    worldtransformation_composition [of chain 1 "[0]" words]
  by (simp add: chain_eq chain_node_def frame_def transformation_def
      frames_of_Nil frames_of_Cons words_def)

text \<open>
  C2, as amended. A child that \<open>add\<close> constructs from a data item has the context of
  its parent, and it is constructed only if the keyword arguments name no other
  context. (An argument that is a scene object already is attached as it is.)
\<close>

theorem add_item_context:
  assumes "self < length h"
    and "add registry dflt self (Item d) kw h = (Inr c, h')"
  shows "context' (h' ! c) = context' (h' ! self)
     \<and> c \<in> set (children (h' ! self)) \<and> parent (h' ! c) = Some self
     \<and> (case kw_context kw of None \<Rightarrow> True | Some x \<Rightarrow> x = context' (h ! self))"
  using add_Item_result [OF assms] add_Item_cases [OF assms(2)] by auto

theorem add_item_context_witness:
  "(0::nat) < length two_contexts
   \<and> (case add any_registry None 0 (Item box) (no_kwargs\<lparr>kw_context := Some (Some ''A'')\<rparr>) two_contexts of
        (r, h') \<Rightarrow> r = Inr 2 \<and> context' (h' ! 2) = context' (h' ! 0) \<and> context' (h' ! 2) = Some ''A''
                 \<and> 2 \<in> set (children (h' ! 0)) \<and> parent (h' ! 2) = Some 0)"
  using add_item_context [of 0 two_contexts any_registry None box
      "no_kwargs\<lparr>kw_context := Some (Some ''A'')\<rparr>" 2
      "snd (add any_registry None 0 (Item box) (no_kwargs\<lparr>kw_context := Some (Some ''A'')\<rparr>) two_contexts)"]
  by (simp add: two_contexts_def example_defs Let_def)

text \<open>
  C2 as stated fails: an object of context \<open>B\<close> is added under an object of context
  \<open>A\<close>, and keeps its context.
\<close>

theorem add_object_context_counterexample:
  "(case add any_registry None 0 (Object 1) no_kwargs two_contexts of
      (r, h') \<Rightarrow> r = Inr 1 \<and> children (h' ! 0) = [1] \<and> parent (h' ! 1) = Some 0
                \<and> context' (h' ! 0) = Some ''A'' \<and> context' (h' ! 1) = Some ''B''
                \<and> context' (h' ! 1) \<noteq> context' (h' ! 0))"
  by (simp add: two_contexts_def example_defs Let_def)

text \<open>
  C3, as amended. When the item is not a scene object already, \<open>add\<close> with a context
  that differs from the parent's raises the exception whose message reports both
  contexts, and the store is as it was.
\<close>

theorem add_mismatch:
  assumes "x \<noteq> context' (h ! self)"
  shows "add registry dflt self (Item d) (kw\<lparr>kw_context := Some x\<rparr>) h
         = (Inl (Exception (''Child context should be the same as parent context: ''
                @ format_context x @ '' != '' @ format_context (context' (h ! self)))), h)"
  using assms by (simp add: add_def mismatch_message_def)

theorem add_mismatch_witness:
  "Some ''X'' \<noteq> context' (two_contexts ! 0)
   \<and> add any_registry None 0 (Item box) (no_kwargs\<lparr>kw_context := Some (Some ''X'')\<rparr>) two_contexts
       = (Inl (Exception ''Child context should be the same as parent context: X != A''), two_contexts)"
  using add_mismatch [of "Some ''X''" two_contexts 0 any_registry None box no_kwargs]
  by (simp add: two_contexts_def init_def color_set_def color_def no_kwargs_def Let_def)

text \<open>
  C3 as stated fails: with a scene object as the item, \<open>add(item, context="X")\<close> on a
  parent of context \<open>A\<close> raises nothing and appends the item to the children.
\<close>

theorem add_object_mismatch_counterexample:
  "context' (two_contexts ! 0) = Some ''A''
   \<and> children (two_contexts ! 0) = []
   \<and> (case add any_registry None 0 (Object 1) (no_kwargs\<lparr>kw_context := Some (Some ''X'')\<rparr>) two_contexts of
        (r, h') \<Rightarrow> r = Inr 1 \<and> children (h' ! 0) = [1])"
  by (simp add: two_contexts_def example_defs Let_def)

text \<open>
  C4. After \<open>color\<close> is set, the first read of \<open>contrastcolor\<close> computes the value and
  stores it; the second read returns the stored value whatever the colour operations
  and the class default are then (it does not compute); and after \<open>color\<close> is set
  again the next read computes the value from the new colour.
\<close>

theorem contrastcolor_memoized:
  "(let s0 = color_set (Some c) self;
        cc = (if is_light K c then darkened K c 50 else lightened K c 50);
        s1 = s0\<lparr>u_contrastcolor := Some cc\<rparr>;
        s2 = color_set (Some c') s1;
        cc' = (if is_light K c' then darkened K c' 50 else lightened K c' 50)
    in contrastcolor K dflt s0 = Inr (cc, s1)
       \<and> contrastcolor K' dflt' s1 = Inr (cc, s1)
       \<and> contrastcolor K dflt s2 = Inr (cc', s2\<lparr>u_contrastcolor := Some cc'\<rparr>))"
  by (simp add: contrastcolor_def color_set_def color_def Let_def)

text \<open>
  C5. The contrast colour is documented as read-only and as the 50 percent darker or
  lighter variant of the colour, and the getter computes exactly that while nothing
  is stored. The class has a setter all the same, and the getter returns what is
  stored without looking at the colour: the colour 80 of the object is light and
  \<open>darkened(50)\<close> of it is 40, but after \<open>obj.contrastcolor = 10\<close> the contrast colour
  read is 10.
\<close>

theorem contrastcolor_overridden:
  "color None overridden_object = Some 80 \<and> is_light grey 80
   \<and> map_sum id fst (contrastcolor grey None overridden_object) = Inr 10
   \<and> darkened grey 80 50 = 40
   \<and> map_sum id fst (contrastcolor grey None overridden_object) \<noteq> Inr (darkened grey 80 50)
   \<and> map_sum id fst (contrastcolor grey None light_object) = Inr (darkened grey 80 50)"
  by (simp add: overridden_object_def contrastcolor_set_def contrastcolor_def light_object_def
      init_def color_set_def color_def grey_def no_kwargs_def Let_def)

text \<open>
  C6, as amended. Reading back is what fails: \<open>__from_data__\<close>, called on the class of
  any scene object with any data, raises the type error "Serialisation outside Scene
  not allowed." Writing does not fail: on every object whose children form a tree,
  \<open>__data__\<close> returns the dictionary of the item's guid, the settings and one
  dictionary for each child.
\<close>

theorem serialisation_outside_scene:
  "from_data (cls (h ! self)) d = Inl (TypeError ''Serialisation outside Scene not allowed.'')
   \<and> (subtree_within n h self
        \<longrightarrow> (\<exists>cs. data n dflt h self
                     = Some (Data (item_guid (u_item (h ! self))) (settings dflt (h ! self)) cs)
                 \<and> length cs = length (children (h ! self))))"
  using data_returns [of n h self dflt] by (simp add: from_data_def)

text \<open>On the chain, from the root: five levels, one child at each but the last.\<close>

theorem serialisation_outside_scene_witness:
  "subtree_within 5 chain 0
   \<and> from_data (cls (chain ! 0)) ''{}'' = Inl (TypeError ''Serialisation outside Scene not allowed.'')
   \<and> (\<exists>cs. data 5 None chain 0 = Some (Data ''guid-0'' (settings None (chain ! 0)) cs)
          \<and> length cs = 1)"
  using serialisation_outside_scene [of chain 0 "''{}''" 5 None]
  by (simp add: eval_nat_numeral chain_eq chain_node_def box_def)

text \<open>
  C6 as stated fails: serialising an object that stands alone returns its dictionary
  and raises nothing.
\<close>

theorem data_standalone_counterexample:
  "data 1 None [light_object] 0
     = Some (Data ''guid-0''
              \<lparr>s_name = ''Box'', s_color = Some 80, s_opacity = 1, s_show = True,
               s_frame = None, s_transformation = None\<rparr> [])"
  by (simp add: light_object_def settings_def init_def color_set_def color_def frame_def
      transformation_def no_kwargs_def box_def Let_def)

text \<open>
  C7. Calling \<open>clear\<close> twice in a row is the same as calling it once: \<open>guids\<close> is empty
  after each call, the second call leaves the object as the first left it, and it hands
  the backend the empty list.
\<close>

theorem clear_idempotent:
  "(let (s1, b1) = clear bc self b;
        (s2, b2) = clear bc s1 b1
    in guids s1 = [] \<and> guids s2 = [] \<and> s2 = s1 \<and> b2 = bc [] b1)"
  by (simp add: clear_def guids_def)

text \<open>
  C8. After \<open>add\<close> of a child and \<open>clear\<close> on the parent the child is still among the
  children of the parent, and its parent is still that object: \<open>clear\<close> changes the
  store only at the parent, and there only the field \<open>_guids\<close>.
\<close>

theorem add_then_clear:
  assumes "self < length h" and "valid_added h item"
    and "add registry dflt self item kw h = (Inr c, h1)"
    and "on_ref self (clear bc) h1 b = (h2, b')"
  shows "c \<in> set (children (h2 ! self)) \<and> parent (h2 ! c) = Some self
       \<and> children (h2 ! self) = children (h1 ! self)
       \<and> h2 = h1[self := (h1 ! self)\<lparr>u_guids := None\<rparr>]"
proof -
  from add_attaches [OF assms(1-3)] have
    len: "self < length h1" "c < length h1"
    and ch: "children (h1 ! self) = children (h ! self) @ [c]"
    and pa: "parent (h1 ! c) = Some self"
    by simp_all
  from assms(4) have h2: "h2 = h1[self := (h1 ! self)\<lparr>u_guids := None\<rparr>]"
    by (simp add: on_ref_def clear_def)
  have "parent (h2 ! c) = Some self"
    using len pa by (cases "c = self") (simp_all add: h2)
  then show ?thesis
    using len ch by (simp add: h2)
qed

theorem add_then_clear_witness:
  "(0::nat) < length two_contexts \<and> valid_added two_contexts (Item box)
   \<and> (case add any_registry None 0 (Item box) no_kwargs two_contexts of
        (r, h1) \<Rightarrow> r = Inr 2
          \<and> (case on_ref 0 (clear (\<lambda>gs b. b @ [gs])) h1 [] of
               (h2, b') \<Rightarrow> 2 \<in> set (children (h2 ! 0)) \<and> parent (h2 ! 2) = Some 0
                          \<and> children (h2 ! 0) = [2] \<and> b' = [[]]))"
  using add_then_clear [of 0 two_contexts "Item box" any_registry None no_kwargs 2
      "snd (add any_registry None 0 (Item box) no_kwargs two_contexts)" "\<lambda>gs b. b @ [gs]" "[]"
      "fst (on_ref 0 (clear (\<lambda>gs b. b @ [gs])) (snd (add any_registry None 0 (Item box) no_kwargs two_contexts)) [])"
      "snd (on_ref 0 (clear (\<lambda>gs b. b @ [gs])) (snd (add any_registry None 0 (Item box) no_kwargs two_contexts)) [])"]
  by (simp add: two_contexts_def example_defs on_ref_def clear_def guids_def Let_def)

text \<open>
  C9. For every polyhedron of one face whose indices are vertices, \<open>points\<close> is the
  list of vertices, and \<open>lines\<close> is the list of the pairs of neighbours on the ring of
  the face's vertices, the last pair closing the ring at its first vertex. When the
  face runs through all the vertices in order, as in the test, that is
  \<open>pairwise(vertices + vertices[:1])\<close>.
\<close>

theorem polyhedron_points_lines:
  assumes "list_all (\<lambda>i. i < length vs) face"
  shows "points (Polyhedron vs [face] n) = vs
       \<and> lines (Polyhedron vs [face] n)
           = Inr (let ring = map (\<lambda>i. vs ! i) face in pairwise' (ring @ take 1 ring))
       \<and> (face = [0..<length vs]
            \<longrightarrow> lines (Polyhedron vs [face] n) = Inr (pairwise' (vs @ take 1 vs)))"
proof -
  have "points (Polyhedron vs [face] n) = vs"
    by (simp add: points_def Polyhedron_def)
  moreover have "lines (Polyhedron vs [face] n)
      = Inr (let ring = map (\<lambda>i. vs ! i) face in pairwise' (ring @ take 1 ring))"
    using lines_one_face [OF assms, of n] by (simp add: Let_def)
  moreover have "lines (Polyhedron vs [face] n) = Inr (pairwise' (vs @ take 1 vs))"
    if "face = [0..<length vs]"
    using lines_one_face [OF assms, of n] by (simp add: that map_nth)
  ultimately show ?thesis by blast
qed

text \<open>The polyhedron of the test.\<close>

theorem polyhedron_points_lines_witness:
  "list_all (\<lambda>i. i < length [[0, 0, 0], [1, 0, 0], [1, 1, 0], [0, 1, 0 :: int]]) [0, 1, 2, 3]
   \<and> [0, 1, 2, 3] = [0..<length [[0, 0, 0], [1, 0, 0], [1, 1, 0], [0, 1, 0 :: int]]]
   \<and> points (Polyhedron [[0, 0, 0], [1, 0, 0], [1, 1, 0], [0, 1, 0]] [[0, 1, 2, 3]] ''Test Polyhedron'')
       = [[0, 0, 0], [1, 0, 0], [1, 1, 0], [0, 1, 0]]
   \<and> lines (Polyhedron [[0, 0, 0], [1, 0, 0], [1, 1, 0], [0, 1, 0]] [[0, 1, 2, 3]] ''Test Polyhedron'')
       = Inr (pairwise' ([[0, 0, 0], [1, 0, 0], [1, 1, 0], [0, 1, 0]]
                          @ take 1 [[0, 0, 0], [1, 0, 0], [1, 1, 0], [0, 1, 0]]))
   \<and> lines (Polyhedron [[0, 0, 0], [1, 0, 0], [1, 1, 0], [0, 1, 0]] [[0, 1, 2, 3]] ''Test Polyhedron'')
       = Inr [([0, 0, 0], [1, 0, 0]), ([1, 0, 0], [1, 1, 0]),
              ([1, 1, 0], [0, 1, 0]), ([0, 1, 0], [0, 0, 0])]"
  using polyhedron_points_lines
    [of "[[0, 0, 0], [1, 0, 0], [1, 1, 0], [0, 1, 0]]" "[0, 1, 2, 3]" "''Test Polyhedron''"]
  by simp

text \<open>
  C10. Reading \<open>guids\<close> always yields a list: the empty list for a freshly constructed
  object and after \<open>clear\<close>, and the handles that the most recent \<open>draw\<close> stored
  otherwise.
\<close>

theorem guids_always_list:
  "guids (init dflt c it kw) = []
   \<and> guids (fst (clear bc self b)) = []
   \<and> guids (draw_variant bd self) = bd self
   \<and> guids (fst (clear bc (draw_variant bd self) b)) = []"
  by (simp add: guids_init) (simp add: guids_def clear_def draw_variant_def)

end
